theory Spec2Isabelle
  imports Main "HOL-Library.Char_ord" "HOL-Library.List_Lexorder"
begin

section \<open>Python values used by the modules\<close>

subsection \<open>Strings\<close>

text \<open>
  A Python \<open>str\<close> is modelled as a HOL \<open>string\<close> whose characters are the code points
  below 256. On that range \<open>str.isspace\<close> holds for the code points 9 to 13, 28 to 32,
  133 and 160, and \<open>str.lower\<close> adds 32 to the code points 65 to 90 and 192 to 222
  (215, the multiplication sign, excepted). \<open>str.strip()\<close> removes the white space at
  both ends.
\<close>

definition py_isspace :: "char \<Rightarrow> bool" where
  "py_isspace c =
     (let n = (of_char c :: nat)
      in (9 \<le> n \<and> n \<le> 13) \<or> (28 \<le> n \<and> n \<le> 32) \<or> n = 133 \<or> n = 160)"

definition strip :: "string \<Rightarrow> string" where
  "strip s = rev (dropWhile py_isspace (rev (dropWhile py_isspace s)))"

definition lower_char :: "char \<Rightarrow> char" where
  "lower_char c =
     (let n = (of_char c :: nat)
      in if (65 \<le> n \<and> n \<le> 90) \<or> (192 \<le> n \<and> n \<le> 222 \<and> n \<noteq> 215)
         then char_of (n + 32) else c)"

definition lower :: "string \<Rightarrow> string" where
  "lower s = map lower_char s"

subsection \<open>Dictionaries\<close>

text \<open>
  A Python \<open>dict\<close> keeps its keys in insertion order, and \<open>list(d.keys())\<close> shows that
  order, so a dictionary is an association list: \<open>d[k] = v\<close> replaces the value of an
  existing key where it stands and appends a new key at the end; \<open>d.get(k)\<close> is
  \<open>None\<close> for a missing key.
\<close>

type_synonym ('k, 'v) dict = "('k \<times> 'v) list"

fun dict_get :: "('k, 'v) dict \<Rightarrow> 'k \<Rightarrow> 'v option" where
  "dict_get [] k = None"
| "dict_get ((k', v') # d) k = (if k' = k then Some v' else dict_get d k)"

fun dict_set :: "('k, 'v) dict \<Rightarrow> 'k \<Rightarrow> 'v \<Rightarrow> ('k, 'v) dict" where
  "dict_set [] k v = [(k, v)]"
| "dict_set ((k', v') # d) k v =
     (if k' = k then (k', v) # d else (k', v') # dict_set d k v)"

definition dict_keys :: "('k, 'v) dict \<Rightarrow> 'k list" where
  "dict_keys d = map fst d"

text \<open>The option dictionaries: string keys, values that are opaque objects.\<close>

type_synonym 'o opts = "(string, 'o) dict"

text \<open>\<open>x or {}\<close>: \<open>None\<close> and the empty dictionary are both false.\<close>

definition or_empty :: "'o opts option \<Rightarrow> 'o opts" where
  "or_empty x = (case x of None \<Rightarrow> [] | Some d \<Rightarrow> (if d = [] then [] else d))"

section \<open>The database engine factory (databases/factory.py)\<close>

subsection \<open>Exceptions\<close>

text \<open>
  The exceptions the module raises itself, and the classes of exception it tells apart
  in what hooks and engines raise. The two \<open>ValueError\<close>s carry what their message is
  built from:
  \<^item> \<open>ValueError_conn_id\<close> is
    \<open>ValueError("Connection ID (conn_id) cannot be None or empty.")\<close>;
  \<^item> \<open>ValueError_unsupported t ks\<close> is
    \<open>ValueError(f"Unsupported database type: '{t}'. Supported types: {ks}")\<close>;
  \<^item> \<open>TypeError_multiple_values k\<close> is what Python raises when \<open>**hook_options\<close>
    repeats the keyword \<open>k\<close> already given in the call;
  \<^item> \<open>SQLAlchemyError_test_failed err\<close> is
    \<open>SQLAlchemyError(f"Connection test failed: {err}")\<close>, raised while \<open>err\<close> is handled;
  \<^item> \<open>AirflowNotFoundException x\<close>, \<open>SQLAlchemyError x\<close> are exceptions of these classes
    (or subclasses) raised by a collaborator, \<open>OtherException x\<close> any other subclass of
    \<open>Exception\<close>, and \<open>NonException x\<close> a \<open>BaseException\<close> outside \<open>Exception\<close>
    (\<open>KeyboardInterrupt\<close>, \<open>SystemExit\<close>).
\<close>

datatype 'o exn =
    ValueError_conn_id
  | ValueError_unsupported string "string list"
  | TypeError_multiple_values string
  | AirflowNotFoundException 'o
  | SQLAlchemyError 'o
  | SQLAlchemyError_test_failed "'o exn"
  | OtherException 'o
  | NonException 'o

fun is_AirflowNotFoundException :: "'o exn \<Rightarrow> bool" where
  "is_AirflowNotFoundException (AirflowNotFoundException x) = True"
| "is_AirflowNotFoundException e = False"

fun is_SQLAlchemyError :: "'o exn \<Rightarrow> bool" where
  "is_SQLAlchemyError (SQLAlchemyError x) = True"
| "is_SQLAlchemyError (SQLAlchemyError_test_failed e) = True"
| "is_SQLAlchemyError e = False"

fun is_Exception :: "'o exn \<Rightarrow> bool" where
  "is_Exception (NonException x) = False"
| "is_Exception e = True"

subsection \<open>Strategies, collaborators and the trace of calls\<close>

text \<open>
  The registry holds strategy classes: the two of the module, and any class a caller
  registers (a subclass of \<open>DatabaseStrategy\<close> that implements \<open>create_hook\<close> and may
  have a constructor), named by an opaque object.
\<close>

datatype 'o strategy_cls = PostgresStrategy | MsSqlStrategy | UserStrategy 'o

datatype 'o strategy = PostgresStrategy_obj | MsSqlStrategy_obj | UserStrategy_obj 'o

text \<open>
  Every call that leaves the module is recorded with its arguments and its outcome
  (\<open>Inl\<close> the exception raised, \<open>Inr\<close> the value returned), in program order; so are
  the instantiation of the strategy, whatever its class, and the log records.
\<close>

datatype 'o event =
    Instantiate "'o strategy_cls" "'o exn + 'o strategy"
  | UserCreateHook 'o string "'o opts" "'o exn + 'o"
  | PostgresHook string "'o opts" "'o exn + 'o"
  | MsSqlHook string "'o opts" "'o exn + 'o"
  | GetSqlalchemyEngine 'o "'o opts" "'o exn + 'o"
  | Connect 'o "'o exn + 'o"
  | Execute 'o string "'o exn + unit"
  | Close 'o "'o exn + unit"
  | LogInfo_created string
  | LogDebug_passed string
  | LogError_not_found string
  | LogError_failed string "'o exn"

text \<open>
  The collaborators are parameters: what a user strategy's constructor and
  \<open>create_hook\<close> do, the constructors of \<open>PostgresHook\<close> and \<open>MsSqlHook\<close>,
  \<open>hook.get_sqlalchemy_engine\<close>, \<open>engine.connect\<close>, \<open>connection.execute\<close> and
  \<open>connection.close\<close>. Each reads and changes a world \<open>'w\<close> and returns or raises.
\<close>

record ('o, 'w) env =
  user_init :: "'o \<Rightarrow> 'w \<Rightarrow> ('o exn + 'o) \<times> 'w"
  user_create_hook :: "'o \<Rightarrow> string \<Rightarrow> 'o opts \<Rightarrow> 'w \<Rightarrow> ('o exn + 'o) \<times> 'w"
  PostgresHook_init :: "string \<Rightarrow> 'o opts \<Rightarrow> 'w \<Rightarrow> ('o exn + 'o) \<times> 'w"
  MsSqlHook_init :: "string \<Rightarrow> 'o opts \<Rightarrow> 'w \<Rightarrow> ('o exn + 'o) \<times> 'w"
  hook_get_sqlalchemy_engine :: "'o \<Rightarrow> 'o opts \<Rightarrow> 'w \<Rightarrow> ('o exn + 'o) \<times> 'w"
  engine_connect :: "'o \<Rightarrow> 'w \<Rightarrow> ('o exn + 'o) \<times> 'w"
  connection_execute :: "'o \<Rightarrow> string \<Rightarrow> 'w \<Rightarrow> ('o exn + unit) \<times> 'w"
  connection_close :: "'o \<Rightarrow> 'w \<Rightarrow> ('o exn + unit) \<times> 'w"

text \<open>A state is the world and the trace so far; a program returns or raises.\<close>

type_synonym ('o, 'w) state = "'w \<times> 'o event list"

type_synonym ('a, 'o, 'w) prog = "('o, 'w) state \<Rightarrow> ('o exn + 'a) \<times> ('o, 'w) state"

definition ret :: "'a \<Rightarrow> ('a, 'o, 'w) prog" where
  "ret x s = (Inr x, s)"

definition raise :: "'o exn \<Rightarrow> ('a, 'o, 'w) prog" where
  "raise e s = (Inl e, s)"

definition bind :: "('a, 'o, 'w) prog \<Rightarrow> ('a \<Rightarrow> ('b, 'o, 'w) prog) \<Rightarrow> ('b, 'o, 'w) prog" where
  "bind m f s = (case m s of (Inl e, s') \<Rightarrow> (Inl e, s') | (Inr x, s') \<Rightarrow> f x s')"

definition catch :: "('a, 'o, 'w) prog \<Rightarrow> ('o exn \<Rightarrow> ('a, 'o, 'w) prog) \<Rightarrow> ('a, 'o, 'w) prog" where
  "catch m h s = (case m s of (Inl e, s') \<Rightarrow> h e s' | (Inr x, s') \<Rightarrow> (Inr x, s'))"

definition call ::
  "(('o exn + 'a) \<Rightarrow> 'o event) \<Rightarrow> ('w \<Rightarrow> ('o exn + 'a) \<times> 'w) \<Rightarrow> ('a, 'o, 'w) prog" where
  "call ev f s = (case f (fst s) of (r, w') \<Rightarrow> (r, (w', snd s @ [ev r])))"

definition log :: "'o event \<Rightarrow> (unit, 'o, 'w) prog" where
  "log ev s = (Inr (), (fst s, snd s @ [ev]))"

text \<open>The number of \<open>close\<close> calls in a trace.\<close>

fun is_Close :: "'o event \<Rightarrow> bool" where
  "is_Close (Close connection r) = True"
| "is_Close ev = False"

definition close_calls :: "'o event list \<Rightarrow> nat" where
  "close_calls tr = length (filter is_Close tr)"

subsection \<open>The strategies\<close>

text \<open>
  \<open>strategy_cls()\<close>. The two strategies of the module have no constructor of their own;
  a user class runs its own.
\<close>

fun instantiate :: "('o, 'w) env \<Rightarrow> 'o strategy_cls \<Rightarrow> ('o strategy, 'o, 'w) prog" where
  "instantiate env PostgresStrategy =
     call (Instantiate PostgresStrategy) (\<lambda>w. (Inr PostgresStrategy_obj, w))"
| "instantiate env MsSqlStrategy =
     call (Instantiate MsSqlStrategy) (\<lambda>w. (Inr MsSqlStrategy_obj, w))"
| "instantiate env (UserStrategy c) =
     call (Instantiate (UserStrategy c))
       (\<lambda>w. case user_init env c w of (r, w') \<Rightarrow> (map_sum id UserStrategy_obj r, w'))"

text \<open>
  \<open>create_hook\<close>: \<open>PostgresHook(postgres_conn_id=conn_id, **hook_options)\<close> and
  \<open>MsSqlHook(mssql_conn_id=conn_id, **hook_options)\<close>; the call itself raises
  \<open>TypeError\<close> when \<open>hook_options\<close> gives the keyword again.
\<close>

fun create_hook ::
  "('o, 'w) env \<Rightarrow> 'o strategy \<Rightarrow> string \<Rightarrow> 'o opts \<Rightarrow> ('o, 'o, 'w) prog" where
  "create_hook env PostgresStrategy_obj conn_id hook_options =
     (if ''postgres_conn_id'' \<in> set (dict_keys hook_options)
      then raise (TypeError_multiple_values ''postgres_conn_id'')
      else call (PostgresHook conn_id hook_options) (PostgresHook_init env conn_id hook_options))"
| "create_hook env MsSqlStrategy_obj conn_id hook_options =
     (if ''mssql_conn_id'' \<in> set (dict_keys hook_options)
      then raise (TypeError_multiple_values ''mssql_conn_id'')
      else call (MsSqlHook conn_id hook_options) (MsSqlHook_init env conn_id hook_options))"
| "create_hook env (UserStrategy_obj self) conn_id hook_options =
     call (UserCreateHook self conn_id hook_options) (user_create_hook env self conn_id hook_options)"

text \<open>
  \<open>with engine.connect() as connection: connection.execute(text("SELECT 1"))\<close>.
  A SQLAlchemy connection enters as itself and its exit closes it and lets the
  exception of the body through; an exception of \<open>close\<close> replaces it.
\<close>

definition with_connection :: "('o, 'w) env \<Rightarrow> 'o \<Rightarrow> (unit, 'o, 'w) prog" where
  "with_connection env engine =
     bind (call (Connect engine) (engine_connect env engine)) (\<lambda>connection s.
       case call (Execute connection ''SELECT 1'')
              (connection_execute env connection ''SELECT 1'') s of
         (Inr u, s') \<Rightarrow> call (Close connection) (connection_close env connection) s'
       | (Inl err, s') \<Rightarrow>
           bind (call (Close connection) (connection_close env connection))
             (\<lambda>_. raise err) s')"

text \<open>
  \<open>_validate_connection\<close>: the probe and the debug record run under
  \<open>except Exception as err\<close>, which raises a new \<open>SQLAlchemyError\<close> naming \<open>err\<close>;
  a \<open>BaseException\<close> outside \<open>Exception\<close> passes through.
\<close>

definition validate_connection ::
  "('o, 'w) env \<Rightarrow> 'o \<Rightarrow> string \<Rightarrow> (unit, 'o, 'w) prog" where
  "validate_connection env engine conn_id =
     catch
       (bind (with_connection env engine) (\<lambda>_. log (LogDebug_passed conn_id)))
       (\<lambda>err. if is_Exception err then raise (SQLAlchemyError_test_failed err)
               else raise err)"

text \<open>
  \<open>create_validated_engine\<close>. \<open>conn_id\<close> may be \<open>None\<close>:
  \<open>not conn_id or not conn_id.strip()\<close> holds for \<open>None\<close>, for the empty string and for
  a string of white space. The two \<open>except\<close> clauses log and raise the exception
  again; any other exception leaves the \<open>try\<close> as it is.
\<close>

definition create_validated_engine ::
  "('o, 'w) env \<Rightarrow> 'o strategy \<Rightarrow> string option \<Rightarrow> 'o opts \<Rightarrow> 'o opts \<Rightarrow> ('o, 'o, 'w) prog" where
  "create_validated_engine env self conn_id hook_options sqlalchemy_options =
     (case conn_id of
        None \<Rightarrow> raise ValueError_conn_id
      | Some cid \<Rightarrow>
          if cid = [] \<or> strip cid = [] then raise ValueError_conn_id
          else
            catch
              (bind (create_hook env self cid hook_options) (\<lambda>hook.
               bind (call (GetSqlalchemyEngine hook sqlalchemy_options)
                       (hook_get_sqlalchemy_engine env hook sqlalchemy_options)) (\<lambda>engine.
               bind (log (LogInfo_created cid)) (\<lambda>_.
               bind (validate_connection env engine cid) (\<lambda>_.
               ret engine)))))
              (\<lambda>err.
                 if is_AirflowNotFoundException err
                 then bind (log (LogError_not_found cid)) (\<lambda>_. raise err)
                 else if is_SQLAlchemyError err
                 then bind (log (LogError_failed cid err)) (\<lambda>_. raise err)
                 else raise err))"

subsection \<open>The factory\<close>

text \<open>
  The registry is the class attribute \<open>_registry\<close>, a dictionary from lower-cased
  type names to strategy classes. \<open>register_strategy\<close> returns the registry after
  \<open>cls._registry[db_type.lower()] = strategy_cls\<close>.
\<close>

type_synonym 'o registry = "(string, 'o strategy_cls) dict"

definition register_strategy ::
  "'o registry \<Rightarrow> string \<Rightarrow> 'o strategy_cls \<Rightarrow> 'o registry" where
  "register_strategy registry db_type strategy_cls =
     dict_set registry (lower db_type) strategy_cls"

definition get_engine ::
  "('o, 'w) env \<Rightarrow> 'o registry \<Rightarrow> string \<Rightarrow> string option \<Rightarrow>
     'o opts option \<Rightarrow> 'o opts option \<Rightarrow> ('o, 'o, 'w) prog" where
  "get_engine env registry db_type conn_id hook_options sqlalchemy_options =
     (let hook_options' = or_empty hook_options;
          sqlalchemy_options' = or_empty sqlalchemy_options
      in case dict_get registry (lower db_type) of
           None \<Rightarrow> raise (ValueError_unsupported db_type (dict_keys registry))
         | Some strategy_cls \<Rightarrow>
             bind (instantiate env strategy_cls) (\<lambda>strategy.
               create_validated_engine env strategy conn_id hook_options' sqlalchemy_options'))"

text \<open>The registry once the module is imported: its last two lines.\<close>

definition module_registry :: "'o registry" where
  "module_registry =
     register_strategy (register_strategy [] ''postgres'' PostgresStrategy)
       ''mssql'' MsSqlStrategy"

section \<open>Logging setup (utils/log_utils.py)\<close>

subsection \<open>The logging module and the file system\<close>

text \<open>
  \<open>str.upper\<close> on the code points below 256: it subtracts 32 from the code points 97 to
  122 and 224 to 254 (247, the division sign, excepted). The upper-case forms of 181,
  223 and 255 lie outside the range, and the model leaves these three as they are.
\<close>

definition upper_char :: "char \<Rightarrow> char" where
  "upper_char c =
     (let n = (of_char c :: nat)
      in if (97 \<le> n \<and> n \<le> 122) \<or> (224 \<le> n \<and> n \<le> 254 \<and> n \<noteq> 247)
         then char_of (n - 32) else c)"

definition upper :: "string \<Rightarrow> string" where
  "upper s = map upper_char s"

text \<open>
  What \<open>getattr(logging, name)\<close> can give: an integer, a string, or something else.
  \<open>Logger.setLevel\<close> and \<open>Handler.setLevel\<close> take an integer as it is and a string
  that names a level, and raise \<open>ValueError\<close> for another string and \<open>TypeError\<close> for
  anything else.
\<close>

datatype attr = IntAttr int | StrAttr string | OtherAttr

datatype 'x log_exn = ValueError_unknown_level string | TypeError_level | Raised 'x

definition name_to_level :: "string \<Rightarrow> int option" where
  "name_to_level s =
     map_of [(''CRITICAL'', 50), (''FATAL'', 50), (''ERROR'', 40), (''WARN'', 30),
             (''WARNING'', 30), (''INFO'', 20), (''DEBUG'', 10), (''NOTSET'', 0)] s"

fun checkLevel :: "attr \<Rightarrow> 'x log_exn + int" where
  "checkLevel (IntAttr i) = Inr i"
| "checkLevel (StrAttr s) =
     (case name_to_level s of None \<Rightarrow> Inl (ValueError_unknown_level s) | Some i \<Rightarrow> Inr i)"
| "checkLevel OtherAttr = Inl TypeError_level"

text \<open>
  A handler is the console handler on \<open>sys.stdout\<close> with its level, or a rotating file
  handler with its file name, \<open>maxBytes\<close>, \<open>backupCount\<close> and level; both carry the one
  formatter of the function. A logger has a level, its handlers and the propagate flag.
\<close>

datatype handler =
    StreamHandler_stdout int
  | RotatingFileHandler string int int int

record logger =
  logger_level :: int
  logger_handlers :: "handler list"
  logger_propagate :: bool

text \<open>
  The state the function works on: the loggers of the logging module by name, the lines
  printed, and the file system. \<open>logging.getLogger\<close> gives the root logger for the empty
  name and for \<open>root\<close>, the logger of that name if there is one, and otherwise makes one
  (level \<open>NOTSET\<close>, no handler, propagating; the root logger has level \<open>WARNING\<close>).
\<close>

record 'fs world =
  loggers :: "string \<rightharpoonup> logger"
  stdout :: "string list"
  files :: 'fs

definition logger_key :: "string \<Rightarrow> string" where
  "logger_key name = (if name = [] \<or> name = ''root'' then ''root'' else name)"

definition new_logger :: "string \<Rightarrow> logger" where
  "new_logger key =
     \<lparr> logger_level = (if key = ''root'' then 30 else 0),
       logger_handlers = [], logger_propagate = True \<rparr>"

definition getLogger :: "string \<Rightarrow> 'fs world \<Rightarrow> logger \<times> 'fs world" where
  "getLogger name w =
     (case loggers w (logger_key name) of
        Some l \<Rightarrow> (l, w)
      | None \<Rightarrow>
          (new_logger (logger_key name),
           w\<lparr>loggers := (loggers w)(logger_key name \<mapsto> new_logger (logger_key name))\<rparr>))"

text \<open>
  The collaborators: the attributes of the logging module, \<open>Path.resolve\<close>,
  \<open>Path.parent\<close>, \<open>Path.exists\<close>, \<open>Path.mkdir(parents=True, exist_ok=True)\<close> and the
  opening of the log file by the constructor of \<open>RotatingFileHandler\<close>.
\<close>

record ('x, 'fs) log_env =
  logging_getattr :: "string \<Rightarrow> attr option"
  path_resolve :: "string \<Rightarrow> 'fs \<Rightarrow> 'x + string"
  path_parent :: "string \<Rightarrow> string"
  path_exists :: "string \<Rightarrow> 'fs \<Rightarrow> 'x + bool"
  path_mkdir :: "string \<Rightarrow> 'fs \<Rightarrow> ('x + unit) \<times> 'fs"
  open_log_file :: "string \<Rightarrow> 'fs \<Rightarrow> ('x + unit) \<times> 'fs"

subsection \<open>FileSystem (etl\_core/utils/file\_system.py)\<close>

definition normalize :: "('x, 'fs) log_env \<Rightarrow> string \<Rightarrow> 'fs \<Rightarrow> 'x + string" where
  "normalize env path fs = path_resolve env path fs"

definition create_directory ::
  "('x, 'fs) log_env \<Rightarrow> string \<Rightarrow> 'fs \<Rightarrow> ('x + string) \<times> 'fs" where
  "create_directory env directory_path fs =
     (case normalize env directory_path fs of
        Inl e \<Rightarrow> (Inl e, fs)
      | Inr path \<Rightarrow>
          (case path_exists env path fs of
             Inl e \<Rightarrow> (Inl e, fs)
           | Inr True \<Rightarrow> (Inr path, fs)
           | Inr False \<Rightarrow>
               (case path_mkdir env path fs of
                  (Inl e, fs') \<Rightarrow> (Inl e, fs')
                | (Inr u, fs') \<Rightarrow> (Inr path, fs'))))"

subsection \<open>setup\_logging\<close>

text \<open>
  \<open>log_file\<close> is \<open>None\<close>, a string or a \<open>Path\<close>; \<open>if log_file\<close> holds for a string
  that is not empty and for every \<open>Path\<close>.
\<close>

datatype log_file_arg = StrPath string | PathObj string

fun path_text :: "log_file_arg \<Rightarrow> string" where
  "path_text (StrPath p) = p"
| "path_text (PathObj p) = p"

fun log_file_true :: "log_file_arg \<Rightarrow> bool" where
  "log_file_true (StrPath p) = (p \<noteq> [])"
| "log_file_true (PathObj p) = True"

definition invalid_level_message :: "string \<Rightarrow> string" where
  "invalid_level_message level_name =
     ''Invalid log level '' @ [CHR 0x27] @ level_name @ [CHR 0x27] @ ''. Defaulting to INFO.''"

text \<open>
  The function returns the logger, here its name in \<open>loggers\<close>, or raises. The level
  is set before the handlers are looked at; a logger that has a handler is returned
  there and then.
\<close>

definition setup_logging ::
  "('x, 'fs) log_env \<Rightarrow> string \<Rightarrow> string \<Rightarrow> log_file_arg option \<Rightarrow> int \<Rightarrow> int \<Rightarrow>
     bool \<Rightarrow> bool \<Rightarrow> 'fs world \<Rightarrow> ('x log_exn + string) \<times> 'fs world" where
  "setup_logging env logger_name level log_file max_file_size backup_count
       enable_console prevent_duplicates w =
     (let (log_level_code, w1) =
            (case logging_getattr env (upper level) of
               Some a \<Rightarrow> (a, w)
             | None \<Rightarrow> (IntAttr 20, w\<lparr>stdout := stdout w @ [invalid_level_message level]\<rparr>));
          key = logger_key logger_name;
          (l, w2) = getLogger logger_name w1
      in case checkLevel log_level_code of
           Inl e \<Rightarrow> (Inl e, w2)
         | Inr code \<Rightarrow>
             (let l1 = l\<lparr>logger_level := code\<rparr>
              in if logger_handlers l1 \<noteq> []
                 then (Inr key, w2\<lparr>loggers := (loggers w2)(key \<mapsto> l1)\<rparr>)
                 else
                   (let l2 = (if prevent_duplicates then l1\<lparr>logger_propagate := False\<rparr> else l1);
                        l3 = (if enable_console
                              then l2\<lparr>logger_handlers :=
                                        logger_handlers l2 @ [StreamHandler_stdout code]\<rparr>
                              else l2);
                        w3 = w2\<lparr>loggers := (loggers w2)(key \<mapsto> l3)\<rparr>
                    in case log_file of
                         None \<Rightarrow> (Inr key, w3)
                       | Some file \<Rightarrow>
                           if \<not> log_file_true file then (Inr key, w3)
                           else
                             (case normalize env (path_text file) (files w3) of
                                Inl e \<Rightarrow> (Inl (Raised e), w3)
                              | Inr p \<Rightarrow>
                                  (case create_directory env (path_parent env p) (files w3) of
                                     (Inl e, fs1) \<Rightarrow> (Inl (Raised e), w3\<lparr>files := fs1\<rparr>)
                                   | (Inr d, fs1) \<Rightarrow>
                                       (case open_log_file env (path_text file) fs1 of
                                          (Inl e, fs2) \<Rightarrow> (Inl (Raised e), w3\<lparr>files := fs2\<rparr>)
                                        | (Inr u, fs2) \<Rightarrow>
                                            (Inr key,
                                             w3\<lparr>files := fs2,
                                                loggers := (loggers w3)(key \<mapsto>
                                                  l3\<lparr>logger_handlers := logger_handlers l3 @
                                                    [RotatingFileHandler (path_text file)
                                                       max_file_size backup_count code]\<rparr>)\<rparr>)))))))"

section \<open>Test doubles\<close>

text \<open>
  A fake backend whose every call succeeds: objects are numbers (hook 1, engine 2,
  connection 3) and the world counts the calls made. Three variants: one whose
  \<open>engine.connect\<close> raises, one whose query raises, one whose \<open>create_hook\<close>
  finds no connection.
\<close>

definition fake_env :: "(nat, nat) env" where
  "fake_env =
     \<lparr> user_init = (\<lambda>c w. (Inr c, Suc w)),
       user_create_hook = (\<lambda>self conn_id hook_options w. (Inr 1, Suc w)),
       PostgresHook_init = (\<lambda>conn_id hook_options w. (Inr 1, Suc w)),
       MsSqlHook_init = (\<lambda>conn_id hook_options w. (Inr 1, Suc w)),
       hook_get_sqlalchemy_engine = (\<lambda>hook sqlalchemy_options w. (Inr 2, Suc w)),
       engine_connect = (\<lambda>engine w. (Inr 3, Suc w)),
       connection_execute = (\<lambda>connection statement w. (Inr (), Suc w)),
       connection_close = (\<lambda>connection w. (Inr (), Suc w)) \<rparr>"

definition fake_env_probe_fails :: "(nat, nat) env" where
  "fake_env_probe_fails =
     fake_env\<lparr>engine_connect := (\<lambda>engine w. (Inl (OtherException 9), Suc w))\<rparr>"

definition fake_env_query_fails :: "(nat, nat) env" where
  "fake_env_query_fails =
     fake_env\<lparr>connection_execute :=
       (\<lambda>connection statement w. (Inl (OtherException 8), Suc w))\<rparr>"

definition fake_env_not_found :: "(nat, nat) env" where
  "fake_env_not_found =
     fake_env\<lparr>user_create_hook :=
       (\<lambda>self conn_id hook_options w. (Inl (AirflowNotFoundException 4), Suc w))\<rparr>"

text \<open>
  The logging module's attributes with upper-case names, and a file system in which
  nothing exists and every operation succeeds.
\<close>

definition fake_log_env :: "(unit, string list) log_env" where
  "fake_log_env =
     \<lparr> logging_getattr = map_of
         [(''CRITICAL'', IntAttr 50), (''FATAL'', IntAttr 50), (''ERROR'', IntAttr 40),
          (''WARNING'', IntAttr 30), (''WARN'', IntAttr 30), (''INFO'', IntAttr 20),
          (''DEBUG'', IntAttr 10), (''NOTSET'', IntAttr 0),
          (''BASIC_FORMAT'', StrAttr ''%(levelname)s:%(name)s:%(message)s'')],
       path_resolve = (\<lambda>path fs. Inr path),
       path_parent = (\<lambda>path. ''/logs''),
       path_exists = (\<lambda>path fs. Inr (path \<in> set fs)),
       path_mkdir = (\<lambda>path fs. (Inr (), path # fs)),
       open_log_file = (\<lambda>path fs. (Inr (), path # fs)) \<rparr>"

definition app_logger :: logger where
  "app_logger =
     \<lparr> logger_level = 20, logger_handlers = [StreamHandler_stdout 20],
       logger_propagate = False \<rparr>"

definition app_world :: "string list world" where
  "app_world = \<lparr> loggers = [''app'' \<mapsto> app_logger], stdout = [], files = [] \<rparr>"

section \<open>Properties\<close>

subsection \<open>Strings, dictionaries and the trace\<close>

lemmas prog_defs = ret_def raise_def bind_def catch_def call_def log_def

lemma lower_literals:
  "lower ''alpha'' = ''alpha''" "lower ''ALPHA'' = ''alpha''" "lower ''beta'' = ''beta''"
  "lower ''postgres'' = ''postgres''" "lower ''Postgres'' = ''postgres''"
  "lower ''mssql'' = ''mssql''" "lower ''POSTGRES'' = ''postgres''"
  by code_simp+

lemma strip_literals: "strip ''conn1'' = ''conn1''" "strip [] = []"
  by code_simp+

lemma strip_Nil_iff: "strip cid = [] \<longleftrightarrow> (\<forall>c\<in>set cid. py_isspace c)"
proof
  assume "strip cid = []"
  then have all: "\<forall>c\<in>set (dropWhile py_isspace cid). py_isspace c"
    by (simp add: strip_def dropWhile_eq_Nil_conv)
  have "dropWhile py_isspace cid = []"
  proof (rule ccontr)
    assume ne: "dropWhile py_isspace cid \<noteq> []"
    then have "\<not> py_isspace (hd (dropWhile py_isspace cid))" by (rule hd_dropWhile)
    moreover from ne have "hd (dropWhile py_isspace cid) \<in> set (dropWhile py_isspace cid)"
      by (rule hd_in_set)
    ultimately show False using all by blast
  qed
  then show "\<forall>c\<in>set cid. py_isspace c" by (simp add: dropWhile_eq_Nil_conv)
next
  assume "\<forall>c\<in>set cid. py_isspace c"
  then have d: "dropWhile py_isspace cid = []" by (simp add: dropWhile_eq_Nil_conv)
  show "strip cid = []" unfolding strip_def d by simp
qed

lemma dict_keys_set:
  "dict_keys (dict_set d k v) =
     (if k \<in> set (dict_keys d) then dict_keys d else dict_keys d @ [k])"
proof (induction d)
  case Nil
  show ?case by (simp add: dict_keys_def)
next
  case (Cons p d)
  obtain k' v' where p: "p = (k', v')" by (cases p)
  show ?case using Cons by (simp add: p dict_keys_def)
qed

lemma dict_get_set: "dict_get (dict_set d k v) k' = (if k' = k then Some v else dict_get d k')"
  by (induction d) auto

lemma dict_get_None: "dict_get d k = None \<longleftrightarrow> k \<notin> set (dict_keys d)"
proof (induction d)
  case Nil
  show ?case by (simp add: dict_keys_def)
next
  case (Cons p d)
  obtain k' v' where p: "p = (k', v')" by (cases p)
  show ?case using Cons by (simp add: p dict_keys_def)
qed

lemma dict_set_twice: "dict_set (dict_set d k v) k v = dict_set d k v"
  by (induction d) auto

lemma count_key: "distinct ks \<Longrightarrow> k \<in> set ks \<Longrightarrow> length (filter (\<lambda>x. x = k) ks) = 1"
proof (induction ks)
  case Nil
  then show ?case by simp
next
  case (Cons x ks)
  show ?case
  proof (cases "x = k")
    case True
    with Cons.prems have "k \<notin> set ks" by simp
    then have "filter (\<lambda>x. x = k) ks = []" by (auto simp: filter_empty_conv)
    with True show ?thesis by simp
  next
    case False
    with Cons show ?thesis by simp
  qed
qed

lemma module_registry_eq:
  "module_registry = [(''postgres'', PostgresStrategy), (''mssql'', MsSqlStrategy)]"
  by (simp add: module_registry_def register_strategy_def lower_literals)

lemma call_trace: "call ev f s = (r, s') \<Longrightarrow> snd s' = snd s @ [ev r]"
  by (auto simp: call_def split: prod.splits)

lemma instantiate_trace:
  "instantiate env strategy_cls s = (r, s') \<Longrightarrow> snd s' = snd s @ [Instantiate strategy_cls r]"
  by (cases strategy_cls) (auto simp: call_def split: prod.splits)

lemma create_hook_trace:
  "create_hook env strategy cid ho s = (Inr hook, s') \<Longrightarrow> \<exists>ev. snd s' = snd s @ [ev]"
  by (cases strategy) (auto simp: prog_defs split: prod.splits if_splits)

lemma bind_Inr:
  "bind m f s = (Inr y, s') \<Longrightarrow> \<exists>x s1. m s = (Inr x, s1) \<and> f x s1 = (Inr y, s')"
  by (auto simp: bind_def split: prod.splits sum.splits)

subsection \<open>The steps of get\_engine\<close>

lemma get_engine_unregistered:
  "lower db_type \<notin> set (dict_keys registry) \<Longrightarrow>
   get_engine env registry db_type conn_id hook_options sqlalchemy_options s =
     (Inl (ValueError_unsupported db_type (dict_keys registry)), s)"
  by (simp add: get_engine_def raise_def dict_get_None [symmetric])

lemma get_engine_registered:
  "dict_get registry (lower db_type) = Some strategy_cls \<Longrightarrow>
   get_engine env registry db_type conn_id hook_options sqlalchemy_options =
     bind (instantiate env strategy_cls) (\<lambda>strategy.
       create_validated_engine env strategy conn_id
         (or_empty hook_options) (or_empty sqlalchemy_options))"
  by (simp add: get_engine_def)

lemma create_validated_engine_blank:
  "\<forall>c\<in>set cid. py_isspace c \<Longrightarrow>
   create_validated_engine env self (Some cid) ho so s = (Inl ValueError_conn_id, s)"
  by (simp add: create_validated_engine_def strip_Nil_iff raise_def)

subsection \<open>C1: the check of the connection identifier\<close>

text \<open>
  C1 as stated (an empty or blank \<open>conn_id\<close> fails with the identifier's
  \<open>ValueError\<close> before any registry lookup and before any strategy is instantiated)
  does not hold. With \<open>alpha\<close> alone registered, the empty identifier and the type
  \<open>beta\<close> fail with the error of the registry lookup; and with the type \<open>alpha\<close> a
  blank identifier fails only after the strategy has been instantiated.
\<close>

theorem get_engine_blank_conn_id_counterexample:
  "get_engine fake_env [(''alpha'', UserStrategy 0)] ''beta'' (Some []) None None (0, []) =
     (Inl (ValueError_unsupported ''beta'' [''alpha'']), (0, [])) \<and>
   get_engine fake_env [(''alpha'', UserStrategy 0)] ''alpha'' (Some '' '') None None (0, []) =
     (Inl ValueError_conn_id,
      (1, [Instantiate (UserStrategy 0) (Inr (UserStrategy_obj 0))]))"
  by (simp add: get_engine_def lower_literals dict_keys_def raise_def bind_def call_def
      fake_env_def create_validated_engine_def strip_def py_isspace_def)

text \<open>
  C1, amended: for every empty or blank \<open>conn_id\<close>, \<open>get_engine\<close> fails. If the
  lower-cased type is not registered it fails with the \<open>ValueError\<close> of the unsupported
  type and calls nothing. Otherwise it instantiates the strategy, and, unless the
  constructor raises, fails with \<open>ValueError("Connection ID (conn_id) cannot be None or
  empty.")\<close>: the state is the one the constructor left, so \<open>create_hook\<close> is not
  called, no engine is made and nothing is logged.
\<close>

theorem get_engine_blank_conn_id:
  assumes "\<forall>c\<in>set cid. py_isspace c"
  shows "get_engine env registry db_type (Some cid) hook_options sqlalchemy_options s =
     (case dict_get registry (lower db_type) of
        None \<Rightarrow> (Inl (ValueError_unsupported db_type (dict_keys registry)), s)
      | Some strategy_cls \<Rightarrow>
          (case instantiate env strategy_cls s of
             (Inl e, s') \<Rightarrow> (Inl e, s')
           | (Inr strategy, s') \<Rightarrow> (Inl ValueError_conn_id, s')))"
proof (cases "dict_get registry (lower db_type)")
  case None
  then show ?thesis by (simp add: get_engine_def raise_def)
next
  case (Some strategy_cls)
  then show ?thesis using assms
    by (simp add: get_engine_registered bind_def create_validated_engine_blank
        split: prod.splits sum.splits)
qed

theorem get_engine_blank_conn_id_witness:
  "py_isspace CHR '' '' \<and>
   get_engine fake_env [(''alpha'', UserStrategy 0)] ''ALPHA'' (Some '' '') None None (0, []) =
     (Inl ValueError_conn_id,
      (1, [Instantiate (UserStrategy 0) (Inr (UserStrategy_obj 0))]))"
proof -
  have h: "\<forall>c\<in>set '' ''. py_isspace c" by (simp add: py_isspace_def)
  show ?thesis
    using h get_engine_blank_conn_id [OF h, of fake_env "[(''alpha'', UserStrategy 0)]"
        "''ALPHA''" None None "(0, [])"]
    by (simp add: lower_literals fake_env_def call_def)
qed

subsection \<open>C2: a failed probe\<close>

lemma with_connection_ok:
  assumes "with_connection env engine s = (Inr u, s')"
  shows "\<exists>connection. snd s' = snd s @ [Connect engine (Inr connection),
           Execute connection ''SELECT 1'' (Inr ()), Close connection (Inr ())]"
  using assms
  by (auto simp: with_connection_def prog_defs split: prod.splits sum.splits)

lemma with_connection_fails:
  assumes "with_connection env engine s = (Inl err, s')"
  shows "snd s' = snd s @ [Connect engine (Inl err)] \<or>
         (\<exists>connection r r'. snd s' = snd s @ [Connect engine (Inr connection),
             Execute connection ''SELECT 1'' r, Close connection r'])"
  using assms
  by (auto simp: with_connection_def prog_defs split: prod.splits sum.splits)

lemma validate_connection_ok:
  assumes "validate_connection env engine conn_id s = (Inr u, s')"
  shows "\<exists>connection. snd s' = snd s @ [Connect engine (Inr connection),
           Execute connection ''SELECT 1'' (Inr ()), Close connection (Inr ()),
           LogDebug_passed conn_id]"
proof -
  from assms obtain s1 where w: "with_connection env engine s = (Inr (), s1)"
    and s': "s' = (fst s1, snd s1 @ [LogDebug_passed conn_id])"
    by (auto simp: validate_connection_def prog_defs split: prod.splits sum.splits if_splits)
  from with_connection_ok [OF w] s' show ?thesis by auto
qed

lemma validate_connection_fails:
  assumes "with_connection env engine s = (Inl err, s')"
  shows "validate_connection env engine conn_id s =
          (Inl (if is_Exception err then SQLAlchemyError_test_failed err else err), s')"
  using assms by (simp add: validate_connection_def prog_defs)

text \<open>
  C2 as stated (when the probe fails the engine is released, its close or dispose called
  exactly once, before the error reaches the caller) does not hold. With a fake engine
  whose \<open>connect\<close> raises, \<open>get_engine\<close> fails with the \<open>SQLAlchemyError\<close> of the failed
  test, and the calls it made are the six listed: none of them closes or disposes
  anything.
\<close>

theorem get_engine_probe_failure_counterexample:
  "get_engine fake_env_probe_fails [(''alpha'', UserStrategy 0)] ''alpha'' (Some ''conn1'')
       None None (0, []) =
     (Inl (SQLAlchemyError_test_failed (OtherException 9)),
      (4, [Instantiate (UserStrategy 0) (Inr (UserStrategy_obj 0)),
           UserCreateHook 0 ''conn1'' [] (Inr 1),
           GetSqlalchemyEngine 1 [] (Inr 2),
           LogInfo_created ''conn1'',
           Connect 2 (Inl (OtherException 9)),
           LogError_failed ''conn1'' (SQLAlchemyError_test_failed (OtherException 9))])) \<and>
   close_calls (snd (snd (get_engine fake_env_probe_fails [(''alpha'', UserStrategy 0)]
       ''alpha'' (Some ''conn1'') None None (0, [])))) = 0"
  by (simp add: get_engine_def fake_env_probe_fails_def fake_env_def prog_defs or_empty_def
      lower_literals create_validated_engine_def strip_literals validate_connection_def
      with_connection_def close_calls_def)

text \<open>
  C2, amended: when the strategy is instantiated, the hook is created and the engine is
  made, and the probe then raises an exception \<open>err\<close> of class \<open>Exception\<close>,
  \<open>get_engine\<close> fails with \<open>SQLAlchemyError(f"Connection test failed: {err}")\<close>, logs
  that error and does nothing more. After the engine was made, the calls are those of the
  probe alone: either \<open>connect\<close> raised \<open>err\<close>, or a connection was opened, the query
  was executed and the \<open>with\<close> block closed that connection, once. The engine itself
  is never closed or disposed of.
\<close>

theorem get_engine_probe_failure:
  assumes reg: "dict_get registry (lower db_type) = Some strategy_cls"
    and inst: "instantiate env strategy_cls s = (Inr strategy, s1)"
    and cid: "strip cid \<noteq> []"
    and hook: "create_hook env strategy cid (or_empty hook_options) s1 = (Inr hook, s2)"
    and eng: "hook_get_sqlalchemy_engine env hook (or_empty sqlalchemy_options) (fst s2) =
                (Inr engine, w3)"
    and probe: "with_connection env engine
                  (w3, snd s2 @ [GetSqlalchemyEngine hook (or_empty sqlalchemy_options) (Inr engine),
                                 LogInfo_created cid]) = (Inl err, s4)"
    and exc: "is_Exception err"
  shows "get_engine env registry db_type (Some cid) hook_options sqlalchemy_options s =
           (Inl (SQLAlchemyError_test_failed err),
            (fst s4, snd s4 @ [LogError_failed cid (SQLAlchemyError_test_failed err)])) \<and>
         (\<exists>probe. snd s4 =
             snd s2 @ [GetSqlalchemyEngine hook (or_empty sqlalchemy_options) (Inr engine),
                       LogInfo_created cid] @ probe \<and>
            (probe = [Connect engine (Inl err)] \<or>
             (\<exists>connection r r'. probe = [Connect engine (Inr connection),
                 Execute connection ''SELECT 1'' r, Close connection r'])))"
proof -
  let ?so = "or_empty sqlalchemy_options"
  let ?s3 = "(w3, snd s2 @ [GetSqlalchemyEngine hook ?so (Inr engine), LogInfo_created cid])"
  from cid have ne: "cid \<noteq> []" using strip_literals(2) by auto
  have v: "validate_connection env engine cid ?s3 = (Inl (SQLAlchemyError_test_failed err), s4)"
    using validate_connection_fails [OF probe] exc by simp
  have "create_validated_engine env strategy (Some cid) (or_empty hook_options) ?so s1 =
          (Inl (SQLAlchemyError_test_failed err),
            (fst s4, snd s4 @ [LogError_failed cid (SQLAlchemyError_test_failed err)]))"
    using cid ne hook eng v
    by (simp add: create_validated_engine_def prog_defs)
  with reg inst have res:
    "get_engine env registry db_type (Some cid) hook_options sqlalchemy_options s =
           (Inl (SQLAlchemyError_test_failed err),
            (fst s4, snd s4 @ [LogError_failed cid (SQLAlchemyError_test_failed err)]))"
    by (simp add: get_engine_registered bind_def)
  from with_connection_fails [OF probe] have
    "snd s4 = snd ?s3 @ [Connect engine (Inl err)] \<or>
     (\<exists>connection r r'. snd s4 = snd ?s3 @ [Connect engine (Inr connection),
             Execute connection ''SELECT 1'' r, Close connection r'])" .
  then have "\<exists>probe. snd s4 = snd s2 @ [GetSqlalchemyEngine hook ?so (Inr engine),
                       LogInfo_created cid] @ probe \<and>
            (probe = [Connect engine (Inl err)] \<or>
             (\<exists>connection r r'. probe = [Connect engine (Inr connection),
                 Execute connection ''SELECT 1'' r, Close connection r']))"
    by auto
  with res show ?thesis by blast
qed

theorem get_engine_probe_failure_witness:
  "dict_get [(''alpha'', UserStrategy 0)] (lower ''alpha'') = Some (UserStrategy 0) \<and>
   strip ''conn1'' \<noteq> [] \<and>
   is_Exception (OtherException (8::nat)) \<and>
   with_connection fake_env_query_fails 2
     (3, [Instantiate (UserStrategy 0) (Inr (UserStrategy_obj 0)),
          UserCreateHook 0 ''conn1'' [] (Inr 1),
          GetSqlalchemyEngine 1 [] (Inr 2), LogInfo_created ''conn1'']) =
     (Inl (OtherException 8),
      (6, [Instantiate (UserStrategy 0) (Inr (UserStrategy_obj 0)),
           UserCreateHook 0 ''conn1'' [] (Inr 1),
           GetSqlalchemyEngine 1 [] (Inr 2), LogInfo_created ''conn1'',
           Connect 2 (Inr 3), Execute 3 ''SELECT 1'' (Inl (OtherException 8)),
           Close 3 (Inr ())])) \<and>
   get_engine fake_env_query_fails [(''alpha'', UserStrategy 0)] ''alpha'' (Some ''conn1'')
       None None (0, []) =
     (Inl (SQLAlchemyError_test_failed (OtherException 8)),
      (6, [Instantiate (UserStrategy 0) (Inr (UserStrategy_obj 0)),
           UserCreateHook 0 ''conn1'' [] (Inr 1),
           GetSqlalchemyEngine 1 [] (Inr 2), LogInfo_created ''conn1'',
           Connect 2 (Inr 3), Execute 3 ''SELECT 1'' (Inl (OtherException 8)),
           Close 3 (Inr ()),
           LogError_failed ''conn1'' (SQLAlchemyError_test_failed (OtherException 8))]))"
proof -
  let ?env = fake_env_query_fails
  let ?t1 = "[Instantiate (UserStrategy 0) (Inr (UserStrategy_obj (0::nat)))]"
  let ?t2 = "?t1 @ [UserCreateHook 0 ''conn1'' [] (Inr 1)]"
  have reg: "dict_get [(''alpha'', UserStrategy 0)] (lower ''alpha'') = Some (UserStrategy (0::nat))"
    by (simp add: lower_literals)
  have inst: "instantiate ?env (UserStrategy 0) (0, []) = (Inr (UserStrategy_obj 0), (1, ?t1))"
    by (simp add: call_def fake_env_query_fails_def fake_env_def)
  have cid: "strip ''conn1'' \<noteq> []"
    by (simp add: strip_literals)
  have hook: "create_hook ?env (UserStrategy_obj 0) ''conn1'' (or_empty None) (1, ?t1) =
                (Inr 1, (2, ?t2))"
    by (simp add: call_def fake_env_query_fails_def fake_env_def or_empty_def)
  have eng: "hook_get_sqlalchemy_engine ?env 1 (or_empty None) (fst (2, ?t2)) = (Inr 2, 3)"
    by (simp add: fake_env_query_fails_def fake_env_def)
  have probe: "with_connection ?env 2
      (3, snd (2, ?t2) @ [GetSqlalchemyEngine 1 (or_empty None) (Inr 2), LogInfo_created ''conn1'']) =
      (Inl (OtherException 8),
       (6, ?t2 @ [GetSqlalchemyEngine 1 [] (Inr 2), LogInfo_created ''conn1'',
           Connect 2 (Inr 3), Execute 3 ''SELECT 1'' (Inl (OtherException 8)),
           Close 3 (Inr ())]))"
    by (simp add: with_connection_def prog_defs fake_env_query_fails_def fake_env_def or_empty_def)
  have exc: "is_Exception (OtherException (8::nat))" by simp
  from get_engine_probe_failure [OF reg inst cid hook eng probe exc]
  have "get_engine ?env [(''alpha'', UserStrategy 0)] ''alpha'' (Some ''conn1'') None None (0, []) =
     (Inl (SQLAlchemyError_test_failed (OtherException 8)),
      (6, ?t2 @ [GetSqlalchemyEngine 1 [] (Inr 2), LogInfo_created ''conn1'',
           Connect 2 (Inr 3), Execute 3 ''SELECT 1'' (Inl (OtherException 8)),
           Close 3 (Inr ()),
           LogError_failed ''conn1'' (SQLAlchemyError_test_failed (OtherException 8))]))"
    by simp
  with reg cid exc probe show ?thesis by (simp add: or_empty_def lower_literals)
qed

subsection \<open>C3: only a probed engine is returned\<close>

lemma create_validated_engine_ok:
  assumes "create_validated_engine env self conn_id ho so s = (Inr engine, s')"
  shows "\<exists>cid hook ev connection. conn_id = Some cid \<and>
           snd s' = snd s @ [ev, GetSqlalchemyEngine hook so (Inr engine), LogInfo_created cid,
             Connect engine (Inr connection), Execute connection ''SELECT 1'' (Inr ()),
             Close connection (Inr ()), LogDebug_passed cid]"
proof -
  from assms obtain cid where cid: "conn_id = Some cid" "cid \<noteq> []" "strip cid \<noteq> []"
    by (cases conn_id) (auto simp: create_validated_engine_def raise_def split: if_splits)
  let ?body = "bind (create_hook env self cid ho) (\<lambda>hook.
               bind (call (GetSqlalchemyEngine hook so)
                       (hook_get_sqlalchemy_engine env hook so)) (\<lambda>engine.
               bind (log (LogInfo_created cid)) (\<lambda>_.
               bind (validate_connection env engine cid) (\<lambda>_.
               ret engine))))"
  from assms cid have body: "?body s = (Inr engine, s')"
    by (auto simp: create_validated_engine_def catch_def raise_def bind_def log_def
        split: prod.splits sum.splits if_splits)
  from bind_Inr [OF body] obtain hook s1 where
    h: "create_hook env self cid ho s = (Inr hook, s1)" and
    r1: "bind (call (GetSqlalchemyEngine hook so) (hook_get_sqlalchemy_engine env hook so))
           (\<lambda>engine. bind (log (LogInfo_created cid)) (\<lambda>_.
              bind (validate_connection env engine cid) (\<lambda>_. ret engine))) s1 = (Inr engine, s')"
    by blast
  from bind_Inr [OF r1] obtain g s2 where
    g: "call (GetSqlalchemyEngine hook so) (hook_get_sqlalchemy_engine env hook so) s1 =
          (Inr g, s2)" and
    r2: "bind (log (LogInfo_created cid)) (\<lambda>_.
              bind (validate_connection env g cid) (\<lambda>_. ret g)) s2 = (Inr engine, s')"
    by blast
  from bind_Inr [OF r2] obtain u s3 where
    l: "log (LogInfo_created cid) s2 = (Inr u, s3)" and
    r3: "bind (validate_connection env g cid) (\<lambda>_. ret g) s3 = (Inr engine, s')"
    by blast
  from bind_Inr [OF r3] obtain u' s4 where
    v: "validate_connection env g cid s3 = (Inr u', s4)" and
    r4: "ret g s4 = (Inr engine, s')"
    by blast
  from r4 have eq: "g = engine" "s4 = s'" by (auto simp: ret_def)
  from create_hook_trace [OF h] obtain ev where t1: "snd s1 = snd s @ [ev]" by blast
  from call_trace [OF g] have t2: "snd s2 = snd s1 @ [GetSqlalchemyEngine hook so (Inr g)]" .
  from l have t3: "snd s3 = snd s2 @ [LogInfo_created cid]" by (auto simp: log_def)
  from validate_connection_ok [OF v] obtain connection where
    t4: "snd s4 = snd s3 @ [Connect g (Inr connection),
           Execute connection ''SELECT 1'' (Inr ()), Close connection (Inr ()),
           LogDebug_passed cid]" by blast
  from t1 t2 t3 t4 eq cid show ?thesis by simp
qed

text \<open>
  C3: whenever \<open>get_engine\<close> returns an engine, the calls it made end with the probe of
  that very engine, and every step of the probe succeeded: \<open>engine.connect()\<close> returned
  a connection, \<open>SELECT 1\<close> was executed on it without an exception, the connection was
  closed, and the passing test was logged. An engine whose probe did not succeed is
  never returned.
\<close>

theorem get_engine_returns_probed_engine:
  assumes "get_engine env registry db_type conn_id hook_options sqlalchemy_options s =
             (Inr engine, s')"
  shows "\<exists>cid pre connection. conn_id = Some cid \<and>
           snd s' = snd s @ pre @ [Connect engine (Inr connection),
             Execute connection ''SELECT 1'' (Inr ()), Close connection (Inr ()),
             LogDebug_passed cid]"
proof -
  from assms obtain strategy_cls where
    reg: "dict_get registry (lower db_type) = Some strategy_cls"
    by (cases "dict_get registry (lower db_type)") (auto simp: get_engine_def raise_def)
  with assms have "bind (instantiate env strategy_cls) (\<lambda>strategy.
       create_validated_engine env strategy conn_id
         (or_empty hook_options) (or_empty sqlalchemy_options)) s = (Inr engine, s')"
    by (simp add: get_engine_def)
  from bind_Inr [OF this] obtain strategy s1 where
    i: "instantiate env strategy_cls s = (Inr strategy, s1)" and
    c: "create_validated_engine env strategy conn_id
         (or_empty hook_options) (or_empty sqlalchemy_options) s1 = (Inr engine, s')"
    by blast
  from instantiate_trace [OF i]
  have t0: "snd s1 = snd s @ [Instantiate strategy_cls (Inr strategy)]" .
  from create_validated_engine_ok [OF c] obtain cid hook ev connection where
    "conn_id = Some cid" and
    "snd s' = snd s1 @ [ev, GetSqlalchemyEngine hook (or_empty sqlalchemy_options) (Inr engine),
             LogInfo_created cid,
             Connect engine (Inr connection), Execute connection ''SELECT 1'' (Inr ()),
             Close connection (Inr ()), LogDebug_passed cid]" by blast
  with t0 have "conn_id = Some cid \<and> snd s' = snd s @
      [Instantiate strategy_cls (Inr strategy), ev,
       GetSqlalchemyEngine hook (or_empty sqlalchemy_options) (Inr engine),
       LogInfo_created cid] @
      [Connect engine (Inr connection), Execute connection ''SELECT 1'' (Inr ()),
             Close connection (Inr ()), LogDebug_passed cid]" by simp
  then show ?thesis by blast
qed

lemma get_engine_fake_alpha:
  "get_engine fake_env [(''alpha'', UserStrategy 0)] ''alpha'' (Some ''conn1'') None None (0, []) =
     (Inr 2, (6, [Instantiate (UserStrategy 0) (Inr (UserStrategy_obj 0)),
        UserCreateHook 0 ''conn1'' [] (Inr 1), GetSqlalchemyEngine 1 [] (Inr 2),
        LogInfo_created ''conn1'', Connect 2 (Inr 3), Execute 3 ''SELECT 1'' (Inr ()),
        Close 3 (Inr ()), LogDebug_passed ''conn1'']))"
  by (simp add: get_engine_def fake_env_def prog_defs or_empty_def lower_literals
      create_validated_engine_def strip_literals validate_connection_def with_connection_def)

theorem get_engine_returns_probed_engine_witness:
  "get_engine fake_env [(''alpha'', UserStrategy 0)] ''alpha'' (Some ''conn1'') None None (0, []) =
     (Inr 2, (6, [Instantiate (UserStrategy 0) (Inr (UserStrategy_obj 0)),
        UserCreateHook 0 ''conn1'' [] (Inr 1), GetSqlalchemyEngine 1 [] (Inr 2),
        LogInfo_created ''conn1'', Connect 2 (Inr 3), Execute 3 ''SELECT 1'' (Inr ()),
        Close 3 (Inr ()), LogDebug_passed ''conn1''])) \<and>
   (\<exists>cid pre connection. Some ''conn1'' = Some cid \<and>
      snd (6::nat, [Instantiate (UserStrategy 0) (Inr (UserStrategy_obj 0)),
        UserCreateHook 0 ''conn1'' [] (Inr 1), GetSqlalchemyEngine 1 [] (Inr 2),
        LogInfo_created ''conn1'', Connect 2 (Inr 3), Execute 3 ''SELECT 1'' (Inr ()),
        Close 3 (Inr ()), LogDebug_passed ''conn1'']) =
      snd (0::nat, []) @ pre @ [Connect (2::nat) (Inr connection),
        Execute connection ''SELECT 1'' (Inr ()), Close connection (Inr ()),
        LogDebug_passed cid])"
  by (rule conjI [OF get_engine_fake_alpha
        get_engine_returns_probed_engine [OF get_engine_fake_alpha]])

subsection \<open>C4 and C5: a type that is not registered\<close>

text \<open>
  C4 as stated (the error carries the sorted list of the registered names) does not
  hold. With the registry of the module itself, \<open>postgres\<close> registered before
  \<open>mssql\<close>, the type \<open>beta\<close> fails with the names in that order, which is not the
  sorted one.
\<close>

theorem get_engine_unsupported_names_counterexample:
  "get_engine fake_env module_registry ''beta'' (Some ''conn1'') None None (0, []) =
     (Inl (ValueError_unsupported ''beta'' [''postgres'', ''mssql'']), (0, [])) \<and>
   sort (dict_keys (module_registry :: nat registry)) = [''mssql'', ''postgres''] \<and>
   fst (get_engine fake_env module_registry ''beta'' (Some ''conn1'') None None (0, [])) \<noteq>
     Inl (ValueError_unsupported ''beta'' (sort (dict_keys (module_registry :: nat registry))))"
  by (simp add: get_engine_def module_registry_eq lower_literals raise_def dict_keys_def)

text \<open>
  C4, amended: for every type whose lower-cased form is not a key of the registry,
  \<open>get_engine\<close> fails with the \<open>ValueError\<close> that carries the name as it was asked
  for and the registered names in the order of their first registration, not sorted:
  registering a name that is there keeps the order, a new name goes to the end. With
  \<open>alpha\<close> alone registered, \<open>beta\<close> fails listing \<open>alpha\<close>.
\<close>

theorem get_engine_unsupported_names:
  assumes "lower db_type \<notin> set (dict_keys registry)"
  shows "fst (get_engine env registry db_type conn_id hook_options sqlalchemy_options s) =
           Inl (ValueError_unsupported db_type (dict_keys registry)) \<and>
         dict_keys (register_strategy registry new_type strategy_cls) =
           (if lower new_type \<in> set (dict_keys registry) then dict_keys registry
            else dict_keys registry @ [lower new_type])"
  using assms by (simp add: get_engine_unregistered register_strategy_def dict_keys_set)

theorem get_engine_unsupported_names_witness:
  "lower ''beta'' \<notin> set (dict_keys (register_strategy [] ''alpha'' (UserStrategy (0::nat)))) \<and>
   fst (get_engine fake_env (register_strategy [] ''alpha'' (UserStrategy 0)) ''beta''
          (Some ''conn1'') (Some []) (Some []) (0, [])) =
     Inl (ValueError_unsupported ''beta'' [''alpha'']) \<and>
   dict_keys (register_strategy (register_strategy [] ''alpha'' (UserStrategy (0::nat)))
                ''beta'' PostgresStrategy) = [''alpha'', ''beta'']"
proof -
  have h: "lower ''beta'' \<notin> set (dict_keys (register_strategy [] ''alpha'' (UserStrategy (0::nat))))"
    by (simp add: register_strategy_def dict_keys_def lower_literals)
  show ?thesis
    using h get_engine_unsupported_names [OF h, of fake_env "Some ''conn1''" "Some []" "Some []"
        "(0, [])" "''beta''" PostgresStrategy]
    by (simp add: register_strategy_def dict_keys_def lower_literals)
qed

text \<open>
  C5: for every type name that is not empty and whose lower-cased form is not
  registered, \<open>get_engine\<close> fails with the \<open>ValueError\<close> of the unsupported type and
  leaves the world and the trace as they were: no strategy is instantiated, no hook is
  created, no connection is looked up.
\<close>

theorem get_engine_unsupported_no_calls:
  assumes "db_type \<noteq> []" and "lower db_type \<notin> set (dict_keys registry)"
  shows "get_engine env registry db_type conn_id hook_options sqlalchemy_options s =
           (Inl (ValueError_unsupported db_type (dict_keys registry)), s)"
  using assms(2) by (rule get_engine_unregistered)

theorem get_engine_unsupported_no_calls_witness:
  "''oracle'' \<noteq> [] \<and> lower ''oracle'' \<notin> set (dict_keys (module_registry :: nat registry)) \<and>
   get_engine fake_env_not_found module_registry ''oracle'' (Some ''conn1'') None None (5, []) =
     (Inl (ValueError_unsupported ''oracle'' [''postgres'', ''mssql'']), (5, []))"
proof -
  have l: "lower ''oracle'' = ''oracle''" by code_simp
  have h1: "''oracle'' \<noteq> []" by simp
  have h2: "lower ''oracle'' \<notin> set (dict_keys (module_registry :: nat registry))"
    by (simp add: l module_registry_eq dict_keys_def)
  show ?thesis
    using h1 h2 get_engine_unsupported_no_calls [OF h1 h2, of fake_env_not_found
        "Some ''conn1''" None None "(5, [])"]
    by (simp add: module_registry_eq dict_keys_def)
qed

subsection \<open>C6 and C7: registration and dispatch ignore case\<close>

lemma register_strategy_get:
  "dict_get (register_strategy registry db_type strategy_cls) k =
     (if k = lower db_type then Some strategy_cls else dict_get registry k)"
  by (simp add: register_strategy_def dict_get_set)

lemma register_strategy_distinct:
  "distinct (dict_keys registry) \<Longrightarrow>
   distinct (dict_keys (register_strategy registry db_type strategy_cls))"
  by (simp add: register_strategy_def dict_keys_set)

lemma register_strategy_mem:
  "lower db_type \<in> set (dict_keys (register_strategy registry db_type strategy_cls))"
  by (simp add: register_strategy_def dict_keys_set)

text \<open>
  C6: \<open>register_strategy\<close> is an upsert under the lower-cased name. After two
  registrations whose names are equal up to case, a registry with distinct keys (every
  registry is one: it starts empty and only \<open>register_strategy\<close> changes it) has
  exactly one entry of that lower-cased name, it holds the class registered last, and
  \<open>get_engine\<close> with any spelling of the name instantiates that class and runs its
  \<open>create_validated_engine\<close>. Registering the second pair once more changes nothing.
\<close>

theorem register_strategy_upsert:
  assumes "lower a = lower b" and "distinct (dict_keys registry)"
  shows "length (filter (\<lambda>k. k = lower a)
           (dict_keys (register_strategy (register_strategy registry a c1) b c2))) = 1 \<and>
         distinct (dict_keys (register_strategy (register_strategy registry a c1) b c2)) \<and>
         dict_get (register_strategy (register_strategy registry a c1) b c2) (lower a) = Some c2 \<and>
         (\<forall>t. lower t = lower a \<longrightarrow>
            get_engine env (register_strategy (register_strategy registry a c1) b c2) t
                conn_id hook_options sqlalchemy_options =
              bind (instantiate env c2) (\<lambda>strategy.
                create_validated_engine env strategy conn_id
                  (or_empty hook_options) (or_empty sqlalchemy_options))) \<and>
         register_strategy (register_strategy (register_strategy registry a c1) b c2) b c2 =
           register_strategy (register_strategy registry a c1) b c2"
proof -
  let ?r = "register_strategy (register_strategy registry a c1) b c2"
  have d: "distinct (dict_keys ?r)"
    using assms(2) by (simp add: register_strategy_distinct)
  have m: "lower a \<in> set (dict_keys ?r)"
    using register_strategy_mem [of b "register_strategy registry a c1" c2] assms(1) by simp
  have one: "length (filter (\<lambda>k. k = lower a) (dict_keys ?r)) = 1"
    using d m by (rule count_key)
  have g: "dict_get ?r (lower a) = Some c2"
    using assms(1) by (simp add: register_strategy_get)
  have e: "\<forall>t. lower t = lower a \<longrightarrow>
            get_engine env ?r t conn_id hook_options sqlalchemy_options =
              bind (instantiate env c2) (\<lambda>strategy.
                create_validated_engine env strategy conn_id
                  (or_empty hook_options) (or_empty sqlalchemy_options))"
    using g by (simp add: get_engine_registered)
  have i: "register_strategy ?r b c2 = ?r"
    by (simp add: register_strategy_def dict_set_twice)
  from one d g e i show ?thesis by blast
qed

theorem register_strategy_upsert_witness:
  "lower ''Postgres'' = lower ''postgres'' \<and>
   distinct (dict_keys (module_registry :: nat registry)) \<and>
   register_strategy (register_strategy module_registry ''Postgres'' MsSqlStrategy)
       ''postgres'' (UserStrategy (0::nat)) =
     [(''postgres'', UserStrategy 0), (''mssql'', MsSqlStrategy)] \<and>
   length (filter (\<lambda>k. k = ''postgres'')
     (dict_keys (register_strategy (register_strategy module_registry ''Postgres'' MsSqlStrategy)
        ''postgres'' (UserStrategy (0::nat))))) = 1 \<and>
   lower ''POSTGRES'' = lower ''Postgres'' \<and>
   get_engine fake_env
       (register_strategy (register_strategy module_registry ''Postgres'' MsSqlStrategy)
          ''postgres'' (UserStrategy 0))
       ''POSTGRES'' (Some ''conn1'') None None (0, []) =
     (Inr 2, (6, [Instantiate (UserStrategy 0) (Inr (UserStrategy_obj 0)),
        UserCreateHook 0 ''conn1'' [] (Inr 1), GetSqlalchemyEngine 1 [] (Inr 2),
        LogInfo_created ''conn1'', Connect 2 (Inr 3), Execute 3 ''SELECT 1'' (Inr ()),
        Close 3 (Inr ()), LogDebug_passed ''conn1'']))"
proof -
  have h1: "lower ''Postgres'' = lower ''postgres''" by (simp add: lower_literals)
  have h2: "distinct (dict_keys (module_registry :: nat registry))"
    by (simp add: module_registry_eq dict_keys_def)
  have h3: "lower ''POSTGRES'' = lower ''Postgres''" by (simp add: lower_literals)
  have r: "register_strategy (register_strategy module_registry ''Postgres'' MsSqlStrategy)
       ''postgres'' (UserStrategy (0::nat)) =
     [(''postgres'', UserStrategy 0), (''mssql'', MsSqlStrategy)]"
    by (simp add: module_registry_eq register_strategy_def lower_literals)
  have run: "bind (instantiate fake_env (UserStrategy 0)) (\<lambda>strategy.
                create_validated_engine fake_env strategy (Some ''conn1'')
                  (or_empty None) (or_empty None)) (0, []) =
     (Inr 2, (6, [Instantiate (UserStrategy 0) (Inr (UserStrategy_obj 0)),
        UserCreateHook 0 ''conn1'' [] (Inr 1), GetSqlalchemyEngine 1 [] (Inr 2),
        LogInfo_created ''conn1'', Connect 2 (Inr 3), Execute 3 ''SELECT 1'' (Inr ()),
        Close 3 (Inr ()), LogDebug_passed ''conn1'']))"
    by (simp add: fake_env_def prog_defs or_empty_def
      create_validated_engine_def strip_literals validate_connection_def with_connection_def)
  note u = register_strategy_upsert [OF h1 h2, of MsSqlStrategy "UserStrategy 0" fake_env
      "Some ''conn1''" None None]
  from u have one: "length (filter (\<lambda>k. k = lower ''Postgres'')
     (dict_keys (register_strategy (register_strategy module_registry ''Postgres'' MsSqlStrategy)
        ''postgres'' (UserStrategy (0::nat))))) = 1" by blast
  from u h3 have "get_engine fake_env
       (register_strategy (register_strategy module_registry ''Postgres'' MsSqlStrategy)
          ''postgres'' (UserStrategy 0))
       ''POSTGRES'' (Some ''conn1'') None None =
     bind (instantiate fake_env (UserStrategy 0)) (\<lambda>strategy.
                create_validated_engine fake_env strategy (Some ''conn1'')
                  (or_empty None) (or_empty None))" by blast
  with run have g: "get_engine fake_env
       (register_strategy (register_strategy module_registry ''Postgres'' MsSqlStrategy)
          ''postgres'' (UserStrategy 0))
       ''POSTGRES'' (Some ''conn1'') None None (0, []) =
     (Inr 2, (6, [Instantiate (UserStrategy 0) (Inr (UserStrategy_obj 0)),
        UserCreateHook 0 ''conn1'' [] (Inr 1), GetSqlalchemyEngine 1 [] (Inr 2),
        LogInfo_created ''conn1'', Connect 2 (Inr 3), Execute 3 ''SELECT 1'' (Inr ()),
        Close 3 (Inr ()), LogDebug_passed ''conn1'']))" by simp
  from one have one': "length (filter (\<lambda>k. k = ''postgres'')
     (dict_keys (register_strategy (register_strategy module_registry ''Postgres'' MsSqlStrategy)
        ''postgres'' (UserStrategy (0::nat))))) = 1" by (simp only: lower_literals)
  from h1 h2 r one' h3 g show ?thesis by blast
qed

text \<open>
  C7: dispatch ignores case. For a registered name and any spelling that differs from
  it in case only, \<open>get_engine\<close> with the one and with the other are the same
  program: from any state both instantiate the same strategy class and give the same
  outcome, so if \<open>get_engine("alpha", ...)\<close> returns an engine then so does
  \<open>get_engine("ALPHA", ...)\<close>.
\<close>

theorem get_engine_case_insensitive:
  assumes "lower variant = lower name"
    and "dict_get registry (lower name) = Some strategy_cls"
  shows "get_engine env registry variant conn_id hook_options sqlalchemy_options =
           get_engine env registry name conn_id hook_options sqlalchemy_options \<and>
         get_engine env registry variant conn_id hook_options sqlalchemy_options =
           bind (instantiate env strategy_cls) (\<lambda>strategy.
             create_validated_engine env strategy conn_id
               (or_empty hook_options) (or_empty sqlalchemy_options))"
  using assms by (simp add: get_engine_registered)

theorem get_engine_case_insensitive_witness:
  "lower ''ALPHA'' = lower ''alpha'' \<and>
   dict_get (register_strategy [] ''alpha'' (UserStrategy (0::nat))) (lower ''alpha'') =
     Some (UserStrategy 0) \<and>
   get_engine fake_env (register_strategy [] ''alpha'' (UserStrategy 0)) ''ALPHA''
       (Some ''conn1'') (Some []) (Some []) (0, []) =
     (Inr 2, (6, [Instantiate (UserStrategy 0) (Inr (UserStrategy_obj 0)),
        UserCreateHook 0 ''conn1'' [] (Inr 1), GetSqlalchemyEngine 1 [] (Inr 2),
        LogInfo_created ''conn1'', Connect 2 (Inr 3), Execute 3 ''SELECT 1'' (Inr ()),
        Close 3 (Inr ()), LogDebug_passed ''conn1'']))"
proof -
  have h1: "lower ''ALPHA'' = lower ''alpha''" by (simp add: lower_literals)
  have h2: "dict_get (register_strategy [] ''alpha'' (UserStrategy (0::nat))) (lower ''alpha'') =
     Some (UserStrategy 0)"
    by (simp add: register_strategy_def)
  have a: "get_engine fake_env (register_strategy [] ''alpha'' (UserStrategy 0)) ''alpha''
       (Some ''conn1'') (Some []) (Some []) (0, []) =
     (Inr 2, (6, [Instantiate (UserStrategy 0) (Inr (UserStrategy_obj 0)),
        UserCreateHook 0 ''conn1'' [] (Inr 1), GetSqlalchemyEngine 1 [] (Inr 2),
        LogInfo_created ''conn1'', Connect 2 (Inr 3), Execute 3 ''SELECT 1'' (Inr ()),
        Close 3 (Inr ()), LogDebug_passed ''conn1'']))"
    by (simp add: get_engine_def register_strategy_def fake_env_def prog_defs or_empty_def
        lower_literals create_validated_engine_def strip_literals validate_connection_def
        with_connection_def)
  from get_engine_case_insensitive [OF h1 h2, of fake_env "Some ''conn1''" "Some []" "Some []"]
  have "get_engine fake_env (register_strategy [] ''alpha'' (UserStrategy 0)) ''ALPHA''
          (Some ''conn1'') (Some []) (Some []) =
        get_engine fake_env (register_strategy [] ''alpha'' (UserStrategy 0)) ''alpha''
          (Some ''conn1'') (Some []) (Some [])" by blast
  with a h1 h2 show ?thesis by simp
qed

subsection \<open>C8: a connection that is not found\<close>

text \<open>
  C8: when the strategy is instantiated and its \<open>create_hook\<close> raises an
  \<open>AirflowNotFoundException\<close>, \<open>get_engine\<close> raises that same exception: the
  \<open>except\<close> clause logs that the connection was not found and raises it again,
  neither wrapped nor replaced.
\<close>

theorem get_engine_not_found_unchanged:
  assumes reg: "dict_get registry (lower db_type) = Some strategy_cls"
    and inst: "instantiate env strategy_cls s = (Inr strategy, s1)"
    and cid: "strip cid \<noteq> []"
    and hook: "create_hook env strategy cid (or_empty hook_options) s1 =
                 (Inl (AirflowNotFoundException x), s2)"
  shows "get_engine env registry db_type (Some cid) hook_options sqlalchemy_options s =
           (Inl (AirflowNotFoundException x), (fst s2, snd s2 @ [LogError_not_found cid]))"
proof -
  from cid have ne: "cid \<noteq> []" using strip_literals(2) by auto
  have "create_validated_engine env strategy (Some cid) (or_empty hook_options)
          (or_empty sqlalchemy_options) s1 =
          (Inl (AirflowNotFoundException x), (fst s2, snd s2 @ [LogError_not_found cid]))"
    using cid ne hook by (simp add: create_validated_engine_def prog_defs)
  with reg inst show ?thesis by (simp add: get_engine_registered bind_def)
qed

theorem get_engine_not_found_unchanged_witness:
  "dict_get [(''alpha'', UserStrategy 0)] (lower ''alpha'') = Some (UserStrategy (0::nat)) \<and>
   strip ''missing'' \<noteq> [] \<and>
   create_hook fake_env_not_found (UserStrategy_obj 0) ''missing'' (or_empty None)
       (1, [Instantiate (UserStrategy 0) (Inr (UserStrategy_obj 0))]) =
     (Inl (AirflowNotFoundException 4),
      (2, [Instantiate (UserStrategy 0) (Inr (UserStrategy_obj 0)),
           UserCreateHook 0 ''missing'' [] (Inl (AirflowNotFoundException 4))])) \<and>
   get_engine fake_env_not_found [(''alpha'', UserStrategy 0)] ''alpha'' (Some ''missing'')
       None None (0, []) =
     (Inl (AirflowNotFoundException 4),
      (2, [Instantiate (UserStrategy 0) (Inr (UserStrategy_obj 0)),
           UserCreateHook 0 ''missing'' [] (Inl (AirflowNotFoundException 4)),
           LogError_not_found ''missing'']))"
proof -
  have reg: "dict_get [(''alpha'', UserStrategy 0)] (lower ''alpha'') = Some (UserStrategy (0::nat))"
    by (simp add: lower_literals)
  have inst: "instantiate fake_env_not_found (UserStrategy 0) (0, []) =
      (Inr (UserStrategy_obj 0), (1, [Instantiate (UserStrategy 0) (Inr (UserStrategy_obj 0))]))"
    by (simp add: call_def fake_env_not_found_def fake_env_def)
  have s: "strip ''missing'' = ''missing''" by code_simp
  have cid: "strip ''missing'' \<noteq> []" by (simp add: s)
  have hook: "create_hook fake_env_not_found (UserStrategy_obj 0) ''missing'' (or_empty None)
       (1, [Instantiate (UserStrategy 0) (Inr (UserStrategy_obj 0))]) =
     (Inl (AirflowNotFoundException 4),
      (2, [Instantiate (UserStrategy 0) (Inr (UserStrategy_obj 0)),
           UserCreateHook 0 ''missing'' [] (Inl (AirflowNotFoundException 4))]))"
    by (simp add: call_def fake_env_not_found_def fake_env_def or_empty_def)
  from get_engine_not_found_unchanged [OF reg inst cid hook, of None]
  have "get_engine fake_env_not_found [(''alpha'', UserStrategy 0)] ''alpha'' (Some ''missing'')
       None None (0, []) =
     (Inl (AirflowNotFoundException 4),
      (2, [Instantiate (UserStrategy 0) (Inr (UserStrategy_obj 0)),
           UserCreateHook 0 ''missing'' [] (Inl (AirflowNotFoundException 4)),
           LogError_not_found ''missing'']))" by simp
  with reg cid hook show ?thesis by blast
qed

text \<open>
  The same holds when the hook is created and it is \<open>get_sqlalchemy_engine\<close> that
  finds no connection.
\<close>

lemma get_engine_not_found_from_engine:
  assumes reg: "dict_get registry (lower db_type) = Some strategy_cls"
    and inst: "instantiate env strategy_cls s = (Inr strategy, s1)"
    and cid: "strip cid \<noteq> []"
    and hook: "create_hook env strategy cid (or_empty hook_options) s1 = (Inr hook, s2)"
    and eng: "hook_get_sqlalchemy_engine env hook (or_empty sqlalchemy_options) (fst s2) =
                (Inl (AirflowNotFoundException x), w3)"
  shows "get_engine env registry db_type (Some cid) hook_options sqlalchemy_options s =
           (Inl (AirflowNotFoundException x),
            (w3, snd s2 @ [GetSqlalchemyEngine hook (or_empty sqlalchemy_options)
                             (Inl (AirflowNotFoundException x)),
                           LogError_not_found cid]))"
proof -
  from cid have ne: "cid \<noteq> []" using strip_literals(2) by auto
  have "create_validated_engine env strategy (Some cid) (or_empty hook_options)
          (or_empty sqlalchemy_options) s1 =
          (Inl (AirflowNotFoundException x),
            (w3, snd s2 @ [GetSqlalchemyEngine hook (or_empty sqlalchemy_options)
                             (Inl (AirflowNotFoundException x)),
                           LogError_not_found cid]))"
    using cid ne hook eng by (simp add: create_validated_engine_def prog_defs)
  with reg inst show ?thesis by (simp add: get_engine_registered bind_def)
qed

subsection \<open>C9: options left out\<close>

text \<open>
  C9: \<open>get_engine\<close> with \<open>hook_options\<close> or \<open>sqlalchemy_options\<close> left out or
  \<open>None\<close> is \<open>get_engine\<close> with the empty dictionary in its place, for every type and
  connection identifier: the strategy is handed \<open>or_empty\<close> of each argument, a
  dictionary in every case.
\<close>

theorem get_engine_default_options:
  "get_engine env registry db_type conn_id None None =
     get_engine env registry db_type conn_id (Some []) (Some []) \<and>
   get_engine env registry db_type conn_id None sqlalchemy_options =
     get_engine env registry db_type conn_id (Some []) sqlalchemy_options \<and>
   get_engine env registry db_type conn_id hook_options None =
     get_engine env registry db_type conn_id hook_options (Some []) \<and>
   get_engine env registry db_type conn_id hook_options sqlalchemy_options =
     get_engine env registry db_type conn_id
       (Some (or_empty hook_options)) (Some (or_empty sqlalchemy_options))"
  by (simp add: get_engine_def or_empty_def split: option.splits)

theorem get_engine_default_options_witness:
  "get_engine fake_env [(''alpha'', UserStrategy 0)] ''alpha'' (Some ''conn1'') (Some []) (Some [])
       (0, []) =
     (Inr 2, (6, [Instantiate (UserStrategy 0) (Inr (UserStrategy_obj 0)),
        UserCreateHook 0 ''conn1'' [] (Inr 1), GetSqlalchemyEngine 1 [] (Inr 2),
        LogInfo_created ''conn1'', Connect 2 (Inr 3), Execute 3 ''SELECT 1'' (Inr ()),
        Close 3 (Inr ()), LogDebug_passed ''conn1'']))"
  using get_engine_default_options [of fake_env "[(''alpha'', UserStrategy 0)]" "''alpha''"
      "Some ''conn1''" None None] get_engine_fake_alpha
  by simp

subsection \<open>C10: setup\_logging on a logger that has handlers\<close>

lemma upper_literals:
  "upper ''debug'' = ''DEBUG''" "upper ''verbose'' = ''VERBOSE''"
  by code_simp+

text \<open>
  C10 as stated (a second call returns the logger unchanged, whatever the other
  arguments) does not hold: the level is set before the handlers are looked at. A logger
  \<open>app\<close> with level 20 and one handler has level 10 after a call with the level
  \<open>debug\<close>.
\<close>

theorem setup_logging_configured_counterexample:
  "loggers app_world ''app'' = Some app_logger \<and>
   logger_handlers app_logger \<noteq> [] \<and>
   setup_logging fake_log_env ''app'' ''debug'' None 10485760 5 True True app_world =
     (Inr ''app'', app_world\<lparr>loggers := [''app'' \<mapsto> app_logger\<lparr>logger_level := 10\<rparr>]\<rparr>) \<and>
   app_logger\<lparr>logger_level := 10\<rparr> \<noteq> app_logger"
  by (simp add: setup_logging_def fake_log_env_def upper_literals getLogger_def logger_key_def
      app_world_def app_logger_def Let_def)

text \<open>
  C10, amended: for a logger that has at least one handler, a call of \<open>setup_logging\<close>
  with its name adds no handler and leaves the propagate flag alone, whatever the other
  arguments; it only sets the logger's level to the one asked for (to \<open>INFO\<close>, after
  printing a line, when the logging module has no attribute of that name), leaves every
  other logger and the file system as they were, and returns the logger. If the
  attribute is not a level, \<open>setLevel\<close> raises and nothing is changed.
\<close>

theorem setup_logging_configured:
  assumes "loggers w (logger_key logger_name) = Some l"
    and "logger_handlers l \<noteq> []"
  shows "setup_logging env logger_name level log_file max_file_size backup_count
           enable_console prevent_duplicates w =
     (case logging_getattr env (upper level) of
        None \<Rightarrow>
          (Inr (logger_key logger_name),
           w\<lparr>stdout := stdout w @ [invalid_level_message level],
              loggers := (loggers w)(logger_key logger_name \<mapsto> l\<lparr>logger_level := 20\<rparr>)\<rparr>)
      | Some a \<Rightarrow>
          (case checkLevel a of
             Inl e \<Rightarrow> (Inl e, w)
           | Inr code \<Rightarrow>
               (Inr (logger_key logger_name),
                w\<lparr>loggers := (loggers w)(logger_key logger_name \<mapsto> l\<lparr>logger_level := code\<rparr>)\<rparr>)))"
  using assms
  by (simp add: setup_logging_def getLogger_def Let_def split: option.splits sum.splits)

theorem setup_logging_configured_witness:
  "loggers app_world (logger_key ''app'') = Some app_logger \<and>
   logger_handlers app_logger \<noteq> [] \<and>
   setup_logging fake_log_env ''app'' ''verbose'' (Some (StrPath ''/logs/app.log'')) 1024 2
       True False app_world =
     (Inr ''app'',
      app_world\<lparr>stdout := [''Invalid log level '' @ [CHR 0x27] @ ''verbose'' @ [CHR 0x27] @
                             ''. Defaulting to INFO.''],
                loggers := [''app'' \<mapsto> app_logger]\<rparr>)"
proof -
  have h1: "loggers app_world (logger_key ''app'') = Some app_logger"
    by (simp add: app_world_def logger_key_def)
  have h2: "logger_handlers app_logger \<noteq> []"
    by (simp add: app_logger_def)
  show ?thesis
    using h1 h2 setup_logging_configured [OF h1 h2, of fake_log_env "''verbose''"
        "Some (StrPath ''/logs/app.log'')" 1024 2 True False]
    by (simp add: fake_log_env_def upper_literals logger_key_def app_world_def app_logger_def
        invalid_level_message_def)
qed

end
